theory Spec2Isabelle
  imports Complex_Main "HOL-Library.Word"
begin

unbundle bit_operations_syntax

section \<open>Residual functors of \<open>bundle/error/absolute_motion_errors.h\<close>\<close>

text \<open>
  The functors are templates over a scalar type \<open>T\<close> (plain numbers or
  derivative-carrying numbers).

  \<open>AbsolutePositionError\<close> is kept polymorphic in its scalar: its definitions
  use only the operations \<open>-\<close>, \<open>*\<close>, \<open>/\<close>, 0 and 1 of an arbitrary type, and
  what is proved of it for every scalar type uses no law of these operations,
  so it does not rest on a law of the reals that \<open>double\<close> lacks. In particular
  \<open>x * 0 = 0\<close> is not assumed: in \<open>double\<close> the product is zero for a finite \<open>x\<close>
  and NaN for an infinite \<open>x\<close> and for NaN.

  The other functors are instantiated at the real numbers: \<open>double\<close> fields and
  literals are read as the reals they denote, and every arithmetic operation
  is exact. No result about them rests on the value HOL gives to a division by
  zero, to the logarithm of a number that is not positive or to the arcsine of
  a number outside \<open>[-1, 1]\<close>: such a term stands on both sides of an equation
  or is excluded by a hypothesis.
\<close>

subsection \<open>Vectors and parameter blocks\<close>

text \<open>
  \<open>Vec3<T>\<close>: a fixed-size vector of three scalars; \<open>vec3\<close> is the vector of
  three reals.
\<close>

datatype 'a Vec3 = Vec3 (vx: 'a) (vy: 'a) (vz: 'a)

type_synonym vec3 = "real Vec3"

text \<open>\<open>v(i)\<close> and \<open>v(i) = c\<close> for the indices 0, 1, 2 the code uses.\<close>

definition coeff :: "'a Vec3 \<Rightarrow> nat \<Rightarrow> 'a" where
  "coeff v i = (if i = 0 then vx v else if i = 1 then vy v else vz v)"

definition set_coeff :: "'a Vec3 \<Rightarrow> nat \<Rightarrow> 'a \<Rightarrow> 'a Vec3" where
  "set_coeff v i c =
     (if i = 0 then Vec3 c (vy v) (vz v)
      else if i = 1 then Vec3 (vx v) c (vz v)
      else Vec3 (vx v) (vy v) c)"

definition vsub :: "'a::minus Vec3 \<Rightarrow> 'a Vec3 \<Rightarrow> 'a Vec3" where
  "vsub u v = Vec3 (vx u - vx v) (vy u - vy v) (vz u - vz v)"

definition sdiv :: "'a::inverse Vec3 \<Rightarrow> 'a \<Rightarrow> 'a Vec3" where
  "sdiv v c = Vec3 (vx v / c) (vy v / c) (vz v / c)"

text \<open>
  A parameter block \<open>T const*\<close> is a raw pointer: a map from offsets to scalars.
  \<open>T const* const* p\<close> is the array of the blocks of one residual; \<open>&shot\<close> is
  the one-element array holding \<open>shot\<close>.
\<close>

type_synonym 'a pointer = "nat \<Rightarrow> 'a"
type_synonym 'a pointers = "'a pointer list"

type_synonym block = "real pointer"
type_synonym blocks = "real pointers"

definition ptr_add :: "'a pointer \<Rightarrow> nat \<Rightarrow> 'a pointer" where
  "ptr_add p k = (\<lambda>i. p (k + i))"

definition addr_of :: "'a pointer \<Rightarrow> 'a pointers" where
  "addr_of shot = [shot]"

subsection \<open>Constants and library functions\<close>

text \<open>
  \<open>M_PI\<close>, \<open>atan2\<close>, \<open>asin\<close>, \<open>log\<close>, \<open>sqrt\<close> and \<open>abs\<close> come from the C
  library and from Ceres, not from this repository. Over the reals they are
  \<open>\<pi>\<close>, the two-argument arctangent defined below, \<^const>\<open>arcsin\<close>,
  \<^const>\<open>ln\<close>, \<^const>\<open>sqrt\<close> and \<^const>\<open>abs\<close>.
\<close>

definition M_PI :: real where
  "M_PI = pi"

text \<open>
  Modelled from the spec: \<open>FUNCTOR_NOT_SET\<close> is declared in
  \<open>bundle/error/position_functors.h\<close>; it is the camera index of a shot that
  is not a rig shot. Only the shot functors read it, and they are parameters
  here, so no result depends on its value.
\<close>

definition FUNCTOR_NOT_SET :: int where
  "FUNCTOR_NOT_SET = - 1"

text \<open>
  \<open>atan2(y, x)\<close>: the angle of the point \<open>(x, y)\<close>, in \<open>(-\<pi>, \<pi>]\<close>, and 0 at the
  origin.
\<close>

definition atan2 :: "real \<Rightarrow> real \<Rightarrow> real" where
  "atan2 y x =
     (if 0 < x then arctan (y / x)
      else if x < 0 then (if 0 \<le> y then arctan (y / x) + pi else arctan (y / x) - pi)
      else if 0 < y then pi / 2
      else if y < 0 then - (pi / 2)
      else 0)"

text \<open>
  \<open>ceres::CrossProduct(x, y, x_cross_y)\<close> of the Ceres library: the cross
  product of two 3-vectors.
\<close>

definition CrossProduct :: "vec3 \<Rightarrow> vec3 \<Rightarrow> vec3" where
  "CrossProduct x y =
     Vec3 (vy x * vz y - vz x * vy y)
          (vz x * vx y - vx x * vz y)
          (vx x * vy y - vy x * vx y)"

subsection \<open>\<open>diff_between_angles\<close>\<close>

definition diff_between_angles :: "real \<Rightarrow> real \<Rightarrow> real" where
  "diff_between_angles a b =
     (let d = a - b in
      if d > M_PI then d - 2 * M_PI
      else if d < - M_PI then d + 2 * M_PI
      else d)"

subsection \<open>Functors declared in headers outside this file\<close>

text \<open>
  \<open>ShotRotationFunctor(instance_index, camera_index)(p)\<close> and
  \<open>ShotPositionFunctor(instance_index, camera_index)(p)\<close> of
  \<open>bundle/error/position_functors.h\<close>, \<open>RotatePoint(R, v)\<close> of
  \<open>bundle/error/error_utils.h\<close> and \<open>ceres::AngleAxisRotatePoint(R, v, out)\<close>
  are not defined in this file. Every operator below takes the ones it calls as
  parameters, so each result holds for whatever these functions compute.
\<close>

type_synonym shot_functor = "int \<Rightarrow> int \<Rightarrow> blocks \<Rightarrow> vec3"
type_synonym rotate_point = "vec3 \<Rightarrow> vec3 \<Rightarrow> vec3"

text \<open>
  A name cannot end in an underscore here, so a member \<open>m_\<close> of a struct is the
  field \<open>m\<close> of its record behind a prefix for the struct: \<open>ape_\<close>,
  \<open>pan_\<close>, \<open>roll_\<close>, \<open>heat_\<close>. The constructor of a struct \<open>S\<close> is
  \<open>S_ctor\<close> and its \<open>operator()\<close> is \<open>S_call\<close>, which returns the boolean
  the operator returns together with the residual it writes.
\<close>

subsection \<open>\<open>AbsolutePositionError\<close>\<close>

text \<open>
  Modelled from the spec: \<open>PositionConstraintType\<close> is declared in
  \<open>bundle/bundle_adjuster.h\<close>; it is a bitmask over the axes X, Y and Z, one bit
  each. A value of the type is read through \<open>int(...)\<close> only.
\<close>

type_synonym PositionConstraintType = int

definition PositionConstraintType_X :: PositionConstraintType where
  "PositionConstraintType_X = 1"

definition PositionConstraintType_Y :: PositionConstraintType where
  "PositionConstraintType_Y = 2"

definition PositionConstraintType_Z :: PositionConstraintType where
  "PositionConstraintType_Z = 4"

record 'a AbsolutePositionError =
  ape_pos_func :: "'a pointers \<Rightarrow> 'a Vec3"
  ape_pos_prior :: "'a Vec3"
  ape_scale_xy :: 'a
  ape_scale_z :: 'a
  ape_has_std_deviation_param :: bool
  ape_type :: PositionConstraintType

definition AbsolutePositionError_ctor ::
  "('a::{one,inverse} pointers \<Rightarrow> 'a Vec3) \<Rightarrow> 'a Vec3 \<Rightarrow> 'a \<Rightarrow> 'a \<Rightarrow> bool
     \<Rightarrow> PositionConstraintType \<Rightarrow> 'a AbsolutePositionError" where
  "AbsolutePositionError_ctor pos_func pos_prior std_deviation_horizontal
       std_deviation_vertical has_std_deviation_param type =
     \<lparr> ape_pos_func = pos_func,
       ape_pos_prior = pos_prior,
       ape_scale_xy = 1 / std_deviation_horizontal,
       ape_scale_z = 1 / std_deviation_vertical,
       ape_has_std_deviation_param = has_std_deviation_param,
       ape_type = type \<rparr>"

definition HasFlag :: "'a AbsolutePositionError \<Rightarrow> PositionConstraintType \<Rightarrow> bool" where
  "HasFlag self flag = ((ape_type self AND flag) = flag)"

text \<open>Lines 30 to 37 of the operator: the difference to the prior, then the scaling.\<close>

definition AbsolutePositionError_scaled ::
  "'a::{minus,times,inverse} AbsolutePositionError \<Rightarrow> 'a pointers \<Rightarrow> 'a Vec3" where
  "AbsolutePositionError_scaled self p =
     (let residual = vsub (ape_pos_prior self) (ape_pos_func self p) in
      if ape_has_std_deviation_param self then sdiv residual ((p ! 1) 0)
      else
        (let residual = set_coeff residual 0 (coeff residual 0 * ape_scale_xy self);
             residual = set_coeff residual 1 (coeff residual 1 * ape_scale_xy self);
             residual = set_coeff residual 2 (coeff residual 2 * ape_scale_z self)
         in residual))"

definition axises :: "PositionConstraintType list" where
  "axises = [PositionConstraintType_X, PositionConstraintType_Y, PositionConstraintType_Z]"

text \<open>Lines 43 to 47: the loop over the axes, from index \<open>i\<close> on.\<close>

function filter_axises ::
  "'a::{times,zero} AbsolutePositionError \<Rightarrow> nat \<Rightarrow> 'a Vec3 \<Rightarrow> 'a Vec3" where
  "filter_axises self i residual =
     (if i < length axises
      then filter_axises self (i + 1)
             (if \<not> HasFlag self (axises ! i)
              then set_coeff residual i (coeff residual i * 0)
              else residual)
      else residual)"
  by pat_completeness auto
termination
  by (relation "measure (\<lambda>(self, i, residual). length axises - i)") auto

declare filter_axises.simps [simp del]

definition AbsolutePositionError_call ::
  "'a::{minus,times,inverse,zero} AbsolutePositionError \<Rightarrow> 'a pointers \<Rightarrow> bool \<times> 'a Vec3" where
  "AbsolutePositionError_call self p =
     (True, filter_axises self 0 (AbsolutePositionError_scaled self p))"

subsection \<open>\<open>PanAngleError\<close>\<close>

record PanAngleError =
  pan_angle :: real
  pan_scale :: real

definition PanAngleError_ctor :: "real \<Rightarrow> real \<Rightarrow> PanAngleError" where
  "PanAngleError_ctor angle std_deviation =
     \<lparr> pan_angle = angle, pan_scale = 1 / std_deviation \<rparr>"

definition PanAngleError_call ::
  "shot_functor \<Rightarrow> rotate_point \<Rightarrow> PanAngleError \<Rightarrow> block \<Rightarrow> bool \<times> real" where
  "PanAngleError_call ShotRotationFunctor RotatePoint self shot =
     (let R = ShotRotationFunctor 0 FUNCTOR_NOT_SET (addr_of shot);
          z_axis = Vec3 0 0 1;
          z_world = RotatePoint R z_axis
      in if \<bar>coeff z_world 0\<bar> < 1 / 10 ^ 8 \<and> \<bar>coeff z_world 1\<bar> < 1 / 10 ^ 8
         then (True, 0)
         else
           (let predicted_angle = atan2 (coeff z_world 0) (coeff z_world 1)
            in (True, pan_scale self * diff_between_angles predicted_angle (pan_angle self))))"

subsection \<open>\<open>RollAngleError\<close>\<close>

record RollAngleError =
  roll_angle :: real
  roll_scale :: real

definition RollAngleError_ctor :: "real \<Rightarrow> real \<Rightarrow> RollAngleError" where
  "RollAngleError_ctor angle std_deviation =
     \<lparr> roll_angle = angle, roll_scale = 1 / std_deviation \<rparr>"

definition RollAngleError_call ::
  "shot_functor \<Rightarrow> rotate_point \<Rightarrow> RollAngleError \<Rightarrow> block \<Rightarrow> bool \<times> real" where
  "RollAngleError_call ShotRotationFunctor AngleAxisRotatePoint self shot =
     (let R = ShotRotationFunctor 0 FUNCTOR_NOT_SET (addr_of shot);
          ex = Vec3 1 0 0;
          ez = Vec3 0 0 1;
          Rt_ex = AngleAxisRotatePoint R ex;
          Rt_ez = AngleAxisRotatePoint R ez;
          a = Vec3 (coeff Rt_ez 1) (- coeff Rt_ez 0) 0;
          la = sqrt (coeff a 0 * coeff a 0 + coeff a 1 * coeff a 1);
          eps = 1 / 10 ^ 5
      in if la < eps then (True, 0)
         else
           (let a = set_coeff a 0 (coeff a 0 / la);
                a = set_coeff a 1 (coeff a 1 / la);
                b = CrossProduct Rt_ex a;
                sin_roll = coeff Rt_ez 0 * coeff b 0 + coeff Rt_ez 1 * coeff b 1
                             + coeff Rt_ez 2 * coeff b 2
            in if sin_roll \<le> - (1 - eps) then (True, 0)
               else
                 (let predicted_angle = arcsin sin_roll
                  in (True, roll_scale self
                              * diff_between_angles predicted_angle (roll_angle self)))))"

subsection \<open>\<open>UnitTranslationPriorError\<close>\<close>

definition UnitTranslationPriorError_call :: "block \<Rightarrow> bool \<times> real" where
  "UnitTranslationPriorError_call shot =
     (let t = ptr_add shot 3
      in (True, ln (t 0 * t 0 + t 1 * t 1 + t 2 * t 2)))"

subsection \<open>\<open>HeatmapdCostFunctor\<close>\<close>

text \<open>
  The interpolator is the function that \<open>interpolator_.Evaluate(row, col, out)\<close>
  writes to \<open>out\<close>.
\<close>

record HeatmapdCostFunctor =
  heat_interpolator :: "real \<Rightarrow> real \<Rightarrow> real"
  heat_x_offset :: real
  heat_y_offset :: real
  heat_height :: real
  heat_width :: real
  heat_resolution :: real
  heat_scale :: real

definition HeatmapdCostFunctor_ctor ::
  "(real \<Rightarrow> real \<Rightarrow> real) \<Rightarrow> real \<Rightarrow> real \<Rightarrow> real \<Rightarrow> real \<Rightarrow> real \<Rightarrow> real
     \<Rightarrow> HeatmapdCostFunctor" where
  "HeatmapdCostFunctor_ctor interpolator x_offset y_offset height width resolution
       std_deviation =
     \<lparr> heat_interpolator = interpolator,
       heat_x_offset = x_offset,
       heat_y_offset = y_offset,
       heat_height = height,
       heat_width = width,
       heat_resolution = resolution,
       heat_scale = 1 / std_deviation \<rparr>"

text \<open>Lines 263 to 267: the raster cell \<open>(row, col)\<close> of a world position.\<close>

definition HeatmapdCostFunctor_row_col :: "HeatmapdCostFunctor \<Rightarrow> vec3 \<Rightarrow> real \<times> real" where
  "HeatmapdCostFunctor_row_col self position =
     (let x_coor = coeff position 0 - heat_x_offset self;
          y_coor = coeff position 1 - heat_y_offset self;
          row = heat_height self / 2 - (y_coor / heat_resolution self);
          col = heat_width self / 2 + (x_coor / heat_resolution self)
      in (row, col))"

definition HeatmapdCostFunctor_call ::
  "shot_functor \<Rightarrow> HeatmapdCostFunctor \<Rightarrow> block \<Rightarrow> bool \<times> real" where
  "HeatmapdCostFunctor_call ShotPositionFunctor self p =
     (let position = ShotPositionFunctor 0 FUNCTOR_NOT_SET (addr_of p);
          (row, col) = HeatmapdCostFunctor_row_col self position;
          residual = heat_interpolator self row col
      in (True, residual * heat_scale self))"

section \<open>Auxiliary facts\<close>

lemma filter_axises_3: "filter_axises self (Suc (Suc (Suc 0))) r = r"
  by (subst filter_axises.simps) (simp add: axises_def)

lemma filter_axises_2:
  "filter_axises self (Suc (Suc 0)) r =
     (if HasFlag self PositionConstraintType_Z then r else Vec3 (vx r) (vy r) (vz r * 0))"
  by (subst filter_axises.simps)
     (simp add: axises_def filter_axises_3 coeff_def set_coeff_def)

lemma filter_axises_1:
  "filter_axises self (Suc 0) r =
     filter_axises self (Suc (Suc 0))
       (if HasFlag self PositionConstraintType_Y then r else Vec3 (vx r) (vy r * 0) (vz r))"
  by (subst filter_axises.simps)
     (simp add: axises_def coeff_def set_coeff_def)

lemma filter_axises_0:
  "filter_axises self 0 r =
     filter_axises self (Suc 0)
       (if HasFlag self PositionConstraintType_X then r else Vec3 (vx r * 0) (vy r) (vz r))"
  by (subst filter_axises.simps)
     (simp add: axises_def coeff_def set_coeff_def)

lemma filter_axises_all:
  "filter_axises self 0 r =
     Vec3 (if HasFlag self PositionConstraintType_X then vx r else vx r * 0)
          (if HasFlag self PositionConstraintType_Y then vy r else vy r * 0)
          (if HasFlag self PositionConstraintType_Z then vz r else vz r * 0)"
  by (cases r) (simp add: filter_axises_0 filter_axises_1 filter_axises_2)

lemma scaled_fixed:
  "\<not> ape_has_std_deviation_param self \<Longrightarrow>
   AbsolutePositionError_scaled self p =
     Vec3 ((vx (ape_pos_prior self) - vx (ape_pos_func self p)) * ape_scale_xy self)
          ((vy (ape_pos_prior self) - vy (ape_pos_func self p)) * ape_scale_xy self)
          ((vz (ape_pos_prior self) - vz (ape_pos_func self p)) * ape_scale_z self)"
  by (simp add: AbsolutePositionError_scaled_def Let_def vsub_def coeff_def set_coeff_def)

lemma scaled_param:
  "ape_has_std_deviation_param self \<Longrightarrow>
   AbsolutePositionError_scaled self p =
     Vec3 ((vx (ape_pos_prior self) - vx (ape_pos_func self p)) / (p ! 1) 0)
          ((vy (ape_pos_prior self) - vy (ape_pos_func self p)) / (p ! 1) 0)
          ((vz (ape_pos_prior self) - vz (ape_pos_func self p)) / (p ! 1) 0)"
  by (simp add: AbsolutePositionError_scaled_def Let_def vsub_def sdiv_def)

section \<open>The angle difference\<close>

text \<open>
  Claim C1, as stated, fails: \<open>diff_between_angles\<close> remaps once only, so a
  difference of \<open>4\<pi>\<close> comes back as \<open>2\<pi>\<close>, outside \<open>(-\<pi>, \<pi>]\<close>.
\<close>

theorem diff_between_angles_range_counterexample:
  "\<not> (- pi < diff_between_angles (4 * pi) 0 \<and> diff_between_angles (4 * pi) 0 \<le> pi)"
  using pi_gt_zero by (simp add: diff_between_angles_def M_PI_def Let_def)

text \<open>
  Claim C1, amended: \<open>diff_between_angles a b\<close> is \<open>a - b\<close>, \<open>a - b - 2\<pi>\<close> or
  \<open>a - b + 2\<pi>\<close>; it is 0 for \<open>a = b\<close>, and \<open>-e\<close> for \<open>a = b + 2\<pi> - e\<close> with
  \<open>0 < e < \<pi>\<close>. For \<open>a - b\<close> in \<open>[-3\<pi>, 3\<pi>]\<close> the result lies in the closed
  interval \<open>[-\<pi>, \<pi>]\<close>, and it lies in \<open>(-\<pi>, \<pi>]\<close> exactly when \<open>a - b\<close> is in
  \<open>(-3\<pi>, 3\<pi>]\<close> and is not \<open>-\<pi>\<close>.
\<close>

theorem diff_between_angles_remap:
  "(diff_between_angles a b = a - b
      \<or> diff_between_angles a b = a - b - 2 * pi
      \<or> diff_between_angles a b = a - b + 2 * pi)
   \<and> diff_between_angles a a = 0
   \<and> (0 < e \<and> e < pi \<longrightarrow> diff_between_angles (b + 2 * pi - e) b = - e)
   \<and> (- (3 * pi) \<le> a - b \<and> a - b \<le> 3 * pi
        \<longrightarrow> - pi \<le> diff_between_angles a b \<and> diff_between_angles a b \<le> pi)
   \<and> ((- pi < diff_between_angles a b \<and> diff_between_angles a b \<le> pi)
        \<longleftrightarrow> (- (3 * pi) < a - b \<and> a - b \<le> 3 * pi \<and> a - b \<noteq> - pi))"
proof -
  have p: "0 < pi" by (rule pi_gt_zero)
  have 1: "diff_between_angles a b = a - b
      \<or> diff_between_angles a b = a - b - 2 * pi
      \<or> diff_between_angles a b = a - b + 2 * pi"
    by (simp add: diff_between_angles_def M_PI_def Let_def)
  have 2: "diff_between_angles a a = 0"
    using p by (simp add: diff_between_angles_def M_PI_def Let_def)
  have 3: "0 < e \<and> e < pi \<longrightarrow> diff_between_angles (b + 2 * pi - e) b = - e"
    using p by (simp add: diff_between_angles_def M_PI_def Let_def)
  have 4: "- (3 * pi) \<le> a - b \<and> a - b \<le> 3 * pi
        \<longrightarrow> - pi \<le> diff_between_angles a b \<and> diff_between_angles a b \<le> pi"
    using p by (auto simp add: diff_between_angles_def M_PI_def Let_def)
  have 5: "(- pi < diff_between_angles a b \<and> diff_between_angles a b \<le> pi)
        \<longleftrightarrow> (- (3 * pi) < a - b \<and> a - b \<le> 3 * pi \<and> a - b \<noteq> - pi)"
    using p by (auto simp add: diff_between_angles_def M_PI_def Let_def)
  from 1 2 3 4 5 show ?thesis by blast
qed

theorem diff_between_angles_remap_witness:
  "(0 < (1::real) \<and> 1 < pi) \<and> diff_between_angles (0 + 2 * pi - 1) 0 = - 1
   \<and> (- (3 * pi) \<le> (1::real) - 0 \<and> (1::real) - 0 \<le> 3 * pi)
   \<and> - pi \<le> diff_between_angles 1 0 \<and> diff_between_angles 1 0 \<le> pi"
  using diff_between_angles_remap [where a = 1 and b = 0 and e = 1] pi_ge_two by simp

section \<open>The absolute position prior\<close>

text \<open>
  Claim C2: without the standard-deviation parameter and with the three axes in
  the mask, the residual is the prior position minus the predicted one, with X
  and Y multiplied by \<open>1 / std_deviation_horizontal\<close> and Z by
  \<open>1 / std_deviation_vertical\<close>.
\<close>

theorem AbsolutePositionError_fixed_scales:
  fixes prior :: vec3
  assumes "self = AbsolutePositionError_ctor pos_func prior sdh sdv False t"
    and "HasFlag self PositionConstraintType_X"
    and "HasFlag self PositionConstraintType_Y"
    and "HasFlag self PositionConstraintType_Z"
  shows "AbsolutePositionError_call self p =
     (True, Vec3 ((vx prior - vx (pos_func p)) * (1 / sdh))
                 ((vy prior - vy (pos_func p)) * (1 / sdh))
                 ((vz prior - vz (pos_func p)) * (1 / sdv)))"
proof -
  have "\<not> ape_has_std_deviation_param self"
    using assms(1) by (simp add: AbsolutePositionError_ctor_def)
  then have "AbsolutePositionError_scaled self p =
     Vec3 ((vx prior - vx (pos_func p)) * (1 / sdh))
          ((vy prior - vy (pos_func p)) * (1 / sdh))
          ((vz prior - vz (pos_func p)) * (1 / sdv))"
    using assms(1) by (simp add: scaled_fixed AbsolutePositionError_ctor_def)
  then show ?thesis
    using assms(2-4) by (simp add: AbsolutePositionError_call_def filter_axises_all)
qed

theorem AbsolutePositionError_fixed_scales_witness:
  "AbsolutePositionError_call
     (AbsolutePositionError_ctor (\<lambda>p. Vec3 1 0 10) (Vec3 0 0 10) 1 2 False 7) []
   = (True, Vec3 (- 1) 0 (0::real))"
  using AbsolutePositionError_fixed_scales [of "AbsolutePositionError_ctor (\<lambda>p. Vec3 1 0 10) (Vec3 0 0 10) 1 2 False 7"
               "\<lambda>p. Vec3 1 0 10" "Vec3 0 0 10" 1 2 7 "[]"]
  by (simp add: HasFlag_def AbsolutePositionError_ctor_def PositionConstraintType_X_def
        PositionConstraintType_Y_def PositionConstraintType_Z_def)

text \<open>
  Claim C3, as stated, fails for an instance that has the standard-deviation
  parameter: with the mask Y, component Y is the difference divided by
  \<open>p[1][0]\<close>, not \<open>scale_xy\<close> times the difference. Here the difference is 1,
  \<open>scale_xy\<close> is 1 and the parameter is 2.
\<close>

theorem AbsolutePositionError_mask_y_counterexample:
  "vy (snd (AbsolutePositionError_call
       (AbsolutePositionError_ctor (\<lambda>p. Vec3 0 0 0) (Vec3 0 1 0) 1 1 True
          PositionConstraintType_Y)
       [\<lambda>i. 0, \<lambda>i. 2]))
   \<noteq> ape_scale_xy (AbsolutePositionError_ctor (\<lambda>p. Vec3 0 0 0) (Vec3 0 1 0) 1 1 True
          PositionConstraintType_Y) * (vy (Vec3 0 1 0) - vy (Vec3 0 0 (0::real)))"
  by (simp add: AbsolutePositionError_call_def filter_axises_all scaled_param HasFlag_def
        AbsolutePositionError_ctor_def PositionConstraintType_X_def
        PositionConstraintType_Y_def PositionConstraintType_Z_def)

text \<open>
  Claim C3, amended: for every scalar type, every instance and every parameter
  input the operator returns true and writes a 3-vector (the type \<open>Vec3\<close>) in
  which a component whose axis has its flag in the mask is the scaled
  component, unchanged, and a component whose axis has not is the scaled
  component multiplied by \<open>T(0.)\<close>. So a masked component is exactly 0 whenever
  that product is 0 (in \<open>double\<close>: whenever the scaled component is finite).
  With the mask Y and such scaled components X and Z, components X and Z are 0
  and component Y is (prior Y minus predicted Y) times \<open>scale_xy\<close> for an
  instance without the standard-deviation parameter, and (prior Y minus
  predicted Y) divided by \<open>p[1][0]\<close> for an instance with it.
\<close>

theorem AbsolutePositionError_mask:
  fixes self :: "'a::{minus,times,inverse,zero} AbsolutePositionError"
  shows
  "fst (AbsolutePositionError_call self p)
   \<and> snd (AbsolutePositionError_call self p) =
       Vec3 (if HasFlag self PositionConstraintType_X
             then vx (AbsolutePositionError_scaled self p)
             else vx (AbsolutePositionError_scaled self p) * 0)
            (if HasFlag self PositionConstraintType_Y
             then vy (AbsolutePositionError_scaled self p)
             else vy (AbsolutePositionError_scaled self p) * 0)
            (if HasFlag self PositionConstraintType_Z
             then vz (AbsolutePositionError_scaled self p)
             else vz (AbsolutePositionError_scaled self p) * 0)
   \<and> (vx (AbsolutePositionError_scaled self p) * 0 = 0
        \<and> vy (AbsolutePositionError_scaled self p) * 0 = 0
        \<and> vz (AbsolutePositionError_scaled self p) * 0 = 0 \<longrightarrow>
        snd (AbsolutePositionError_call self p) =
          Vec3 (if HasFlag self PositionConstraintType_X
                then vx (AbsolutePositionError_scaled self p) else 0)
               (if HasFlag self PositionConstraintType_Y
                then vy (AbsolutePositionError_scaled self p) else 0)
               (if HasFlag self PositionConstraintType_Z
                then vz (AbsolutePositionError_scaled self p) else 0))
   \<and> (ape_type self = PositionConstraintType_Y
        \<and> vx (AbsolutePositionError_scaled self p) * 0 = 0
        \<and> vz (AbsolutePositionError_scaled self p) * 0 = 0 \<longrightarrow>
        snd (AbsolutePositionError_call self p) =
          Vec3 0
               (if ape_has_std_deviation_param self
                then (vy (ape_pos_prior self) - vy (ape_pos_func self p)) / (p ! 1) 0
                else (vy (ape_pos_prior self) - vy (ape_pos_func self p)) * ape_scale_xy self)
               0)"
proof -
  let ?s = "AbsolutePositionError_scaled self p"
  have 1: "fst (AbsolutePositionError_call self p)"
    by (simp add: AbsolutePositionError_call_def)
  have 2: "snd (AbsolutePositionError_call self p) =
       Vec3 (if HasFlag self PositionConstraintType_X then vx ?s else vx ?s * 0)
            (if HasFlag self PositionConstraintType_Y then vy ?s else vy ?s * 0)
            (if HasFlag self PositionConstraintType_Z then vz ?s else vz ?s * 0)"
    by (simp add: AbsolutePositionError_call_def filter_axises_all)
  have 3: "snd (AbsolutePositionError_call self p) =
       Vec3 (if HasFlag self PositionConstraintType_X then vx ?s else 0)
            (if HasFlag self PositionConstraintType_Y then vy ?s else 0)
            (if HasFlag self PositionConstraintType_Z then vz ?s else 0)"
    if "vx ?s * 0 = 0 \<and> vy ?s * 0 = 0 \<and> vz ?s * 0 = 0"
    using that by (simp add: 2)
  have 4: "snd (AbsolutePositionError_call self p) =
          Vec3 0
               (if ape_has_std_deviation_param self
                then (vy (ape_pos_prior self) - vy (ape_pos_func self p)) / (p ! 1) 0
                else (vy (ape_pos_prior self) - vy (ape_pos_func self p)) * ape_scale_xy self)
               0"
    if y: "ape_type self = PositionConstraintType_Y \<and> vx ?s * 0 = 0 \<and> vz ?s * 0 = 0"
  proof -
    have f: "\<not> HasFlag self PositionConstraintType_X" "HasFlag self PositionConstraintType_Y"
      "\<not> HasFlag self PositionConstraintType_Z"
      using y by (simp_all add: HasFlag_def PositionConstraintType_X_def
          PositionConstraintType_Y_def PositionConstraintType_Z_def)
    have "snd (AbsolutePositionError_call self p) = Vec3 0 (vy ?s) 0"
      using f y by (simp add: 2)
    moreover have "vy ?s =
        (if ape_has_std_deviation_param self
         then (vy (ape_pos_prior self) - vy (ape_pos_func self p)) / (p ! 1) 0
         else (vy (ape_pos_prior self) - vy (ape_pos_func self p)) * ape_scale_xy self)"
      by (simp add: scaled_param scaled_fixed)
    ultimately show ?thesis by simp
  qed
  from 1 2 3 4 show ?thesis by (intro conjI impI)
qed

theorem AbsolutePositionError_mask_witness:
  "AbsolutePositionError_call
     (AbsolutePositionError_ctor (\<lambda>p. Vec3 0 0 0) (Vec3 1 2 3) 2 1 False
        PositionConstraintType_Y) []
   = (True, Vec3 0 1 (0::real))"
proof -
  let ?s = "AbsolutePositionError_ctor (\<lambda>p. Vec3 0 0 0) (Vec3 1 2 (3::real)) 2 1 False
        PositionConstraintType_Y"
  have y: "ape_type ?s = PositionConstraintType_Y
      \<and> vx (AbsolutePositionError_scaled ?s []) * 0 = 0
      \<and> vz (AbsolutePositionError_scaled ?s []) * 0 = 0"
    by (simp add: AbsolutePositionError_ctor_def)
  have "fst (AbsolutePositionError_call ?s [])"
    using AbsolutePositionError_mask [of ?s "[]"] by (rule conjunct1)
  moreover note AbsolutePositionError_mask [of ?s "[]", THEN conjunct2, THEN conjunct2,
      THEN conjunct2, THEN mp, OF y]
  then have "snd (AbsolutePositionError_call ?s []) = Vec3 0 1 0"
    by (simp add: AbsolutePositionError_ctor_def)
  ultimately show ?thesis
    by (simp add: prod_eq_iff)
qed

text \<open>
  Claim C4: with the standard-deviation parameter, the residual before masking
  is the prior position minus the predicted one with each of the three
  components divided by \<open>p[1][0]\<close>; the two fixed standard deviations have no
  effect on the result.
\<close>

theorem AbsolutePositionError_std_deviation_param:
  fixes prior :: vec3
  shows
  "AbsolutePositionError_scaled
       (AbsolutePositionError_ctor pos_func prior sdh sdv True t) p =
     Vec3 ((vx prior - vx (pos_func p)) / (p ! 1) 0)
          ((vy prior - vy (pos_func p)) / (p ! 1) 0)
          ((vz prior - vz (pos_func p)) / (p ! 1) 0)
   \<and> AbsolutePositionError_call
       (AbsolutePositionError_ctor pos_func prior sdh sdv True t) p =
     AbsolutePositionError_call
       (AbsolutePositionError_ctor pos_func prior sdh' sdv' True t) p"
  by (simp add: scaled_param AbsolutePositionError_call_def filter_axises_all HasFlag_def
        AbsolutePositionError_ctor_def)

theorem AbsolutePositionError_std_deviation_param_witness:
  "AbsolutePositionError_scaled
       (AbsolutePositionError_ctor (\<lambda>p. Vec3 1 2 3) (Vec3 3 6 11) 1 5 True 7)
       [\<lambda>i. 0, \<lambda>i. 2] = Vec3 1 2 (4::real)"
  using AbsolutePositionError_std_deviation_param [of "\<lambda>p. Vec3 1 2 3" "Vec3 3 6 11" 1 5 7 "[\<lambda>i. 0, \<lambda>i. 2]"]
  by simp

section \<open>The pan and roll priors\<close>

text \<open>
  Claim C5: \<open>PanAngleError\<close> rotates \<open>(0, 0, 1)\<close> by the shot rotation; when the
  x and y components of the result are both below \<open>1e-8\<close> in magnitude the
  residual is 0, and otherwise it is the scale times
  \<open>diff_between_angles(atan2(x, y), angle)\<close>, x being the first argument of
  \<open>atan2\<close>.
\<close>

theorem PanAngleError_residual:
  "(let z_world = RotatePoint (ShotRotationFunctor 0 FUNCTOR_NOT_SET (addr_of shot)) (Vec3 0 0 1)
    in (\<bar>vx z_world\<bar> < 1 / 10 ^ 8 \<and> \<bar>vy z_world\<bar> < 1 / 10 ^ 8 \<longrightarrow>
          PanAngleError_call ShotRotationFunctor RotatePoint self shot = (True, 0))
     \<and> (\<not> (\<bar>vx z_world\<bar> < 1 / 10 ^ 8 \<and> \<bar>vy z_world\<bar> < 1 / 10 ^ 8) \<longrightarrow>
          PanAngleError_call ShotRotationFunctor RotatePoint self shot =
            (True, pan_scale self
                     * diff_between_angles (atan2 (vx z_world) (vy z_world)) (pan_angle self))))"
  by (simp add: PanAngleError_call_def Let_def coeff_def)

theorem PanAngleError_residual_witness:
  "PanAngleError_call (\<lambda>i c p. Vec3 ((p ! 0) 0) ((p ! 0) 1) ((p ! 0) 2)) (\<lambda>R v. v)
       (PanAngleError_ctor 0 2) (\<lambda>i. 0) = (True, 0)
   \<and> PanAngleError_call (\<lambda>i c p. Vec3 ((p ! 0) 0) ((p ! 0) 1) ((p ! 0) 2))
       (\<lambda>R v. Vec3 (vz v) (vy v) (- vx v))
       (PanAngleError_ctor 0 2) (\<lambda>i. 0) = (True, pi / 4)"
  using PanAngleError_residual [of "\<lambda>R v. v" "\<lambda>i c p. Vec3 ((p ! 0) 0) ((p ! 0) 1) ((p ! 0) 2)" "\<lambda>i. 0"
               "PanAngleError_ctor 0 2"]
        PanAngleError_residual [of "\<lambda>R v. Vec3 (vz v) (vy v) (- vx v)"
               "\<lambda>i c p. Vec3 ((p ! 0) 0) ((p ! 0) 1) ((p ! 0) 2)" "\<lambda>i. 0"
               "PanAngleError_ctor 0 2"]
  by (simp add: Let_def PanAngleError_ctor_def atan2_def diff_between_angles_def M_PI_def)

text \<open>
  Claim C6: with \<open>forward\<close> and \<open>right\<close> the rotated axes \<open>(0, 0, 1)\<close> and
  \<open>(1, 0, 0)\<close>, \<open>a = (forward_y, -forward_x, 0)\<close> and \<open>la\<close> its length: the
  residual of \<open>RollAngleError\<close> is 0 when \<open>la < 1e-5\<close>; otherwise, with
  \<open>b = right \<times> a / la\<close> and \<open>sin_roll = forward \<cdot> b\<close>, it is 0 when
  \<open>sin_roll \<le> -(1 - 1e-5)\<close> and the scale times
  \<open>diff_between_angles(asin(sin_roll), angle)\<close> when not.
\<close>

theorem RollAngleError_residual:
  "(let R = ShotRotationFunctor 0 FUNCTOR_NOT_SET (addr_of shot);
        right = AngleAxisRotatePoint R (Vec3 1 0 0);
        forward = AngleAxisRotatePoint R (Vec3 0 0 1);
        a = Vec3 (vy forward) (- vx forward) 0;
        la = sqrt (vx a * vx a + vy a * vy a);
        b = CrossProduct right (Vec3 (vx a / la) (vy a / la) 0);
        sin_roll = vx forward * vx b + vy forward * vy b + vz forward * vz b
    in (la < 1 / 10 ^ 5 \<longrightarrow>
          RollAngleError_call ShotRotationFunctor AngleAxisRotatePoint self shot = (True, 0))
     \<and> (\<not> la < 1 / 10 ^ 5 \<and> sin_roll \<le> - (1 - 1 / 10 ^ 5) \<longrightarrow>
          RollAngleError_call ShotRotationFunctor AngleAxisRotatePoint self shot = (True, 0))
     \<and> (\<not> la < 1 / 10 ^ 5 \<and> \<not> sin_roll \<le> - (1 - 1 / 10 ^ 5) \<longrightarrow>
          RollAngleError_call ShotRotationFunctor AngleAxisRotatePoint self shot =
            (True, roll_scale self
                     * diff_between_angles (arcsin sin_roll) (roll_angle self))))"
  by (simp add: RollAngleError_call_def Let_def coeff_def set_coeff_def)

theorem RollAngleError_residual_witness:
  "RollAngleError_call (\<lambda>i c p. Vec3 ((p ! 0) 0) ((p ! 0) 1) ((p ! 0) 2)) (\<lambda>R v. v)
       (RollAngleError_ctor 1 2) (\<lambda>i. 0) = (True, 0)
   \<and> RollAngleError_call (\<lambda>i c p. Vec3 ((p ! 0) 0) ((p ! 0) 1) ((p ! 0) 2))
       (\<lambda>R v. Vec3 (- vy v) (vz v) (- vx v))
       (RollAngleError_ctor 1 2) (\<lambda>i. 0) = (True, 0)
   \<and> RollAngleError_call (\<lambda>i c p. Vec3 ((p ! 0) 0) ((p ! 0) 1) ((p ! 0) 2))
       (\<lambda>R v. Vec3 (vx v) (- vz v) (vy v))
       (RollAngleError_ctor 1 2) (\<lambda>i. 0) = (True, - (1 / 2))"
  using RollAngleError_residual [where AngleAxisRotatePoint = "\<lambda>R v. v"
             and ShotRotationFunctor = "\<lambda>i c p. Vec3 ((p ! 0) 0) ((p ! 0) 1) ((p ! 0) 2)"
             and shot = "\<lambda>i. 0" and self = "RollAngleError_ctor 1 2"]
        RollAngleError_residual [where AngleAxisRotatePoint = "\<lambda>R v. Vec3 (- vy v) (vz v) (- vx v)"
             and ShotRotationFunctor = "\<lambda>i c p. Vec3 ((p ! 0) 0) ((p ! 0) 1) ((p ! 0) 2)"
             and shot = "\<lambda>i. 0" and self = "RollAngleError_ctor 1 2"]
        RollAngleError_residual [where AngleAxisRotatePoint = "\<lambda>R v. Vec3 (vx v) (- vz v) (vy v)"
             and ShotRotationFunctor = "\<lambda>i c p. Vec3 ((p ! 0) 0) ((p ! 0) 1) ((p ! 0) 2)"
             and shot = "\<lambda>i. 0" and self = "RollAngleError_ctor 1 2"]
        pi_ge_two
  by (simp add: Let_def RollAngleError_ctor_def CrossProduct_def diff_between_angles_def
        M_PI_def)

section \<open>The unit translation prior\<close>

text \<open>
  Claim C7: the residual of \<open>UnitTranslationPriorError\<close> is the logarithm of
  the squared norm of the translation (entries 3, 4, 5 of the shot block), with
  no scale: 0 for the translation \<open>(1, 0, 0)\<close> and \<open>log 4\<close> for \<open>(2, 0, 0)\<close>.
\<close>

theorem UnitTranslationPriorError_residual:
  "UnitTranslationPriorError_call shot
     = (True, ln (shot 3 * shot 3 + shot 4 * shot 4 + shot 5 * shot 5))
   \<and> (shot 3 = 1 \<and> shot 4 = 0 \<and> shot 5 = 0 \<longrightarrow>
        UnitTranslationPriorError_call shot = (True, 0))
   \<and> (shot 3 = 2 \<and> shot 4 = 0 \<and> shot 5 = 0 \<longrightarrow>
        UnitTranslationPriorError_call shot = (True, ln 4))"
  by (simp add: UnitTranslationPriorError_call_def Let_def ptr_add_def)

theorem UnitTranslationPriorError_residual_witness:
  "UnitTranslationPriorError_call (\<lambda>i. if i = 3 then 1 else 0) = (True, 0)
   \<and> UnitTranslationPriorError_call (\<lambda>i. if i = 3 then 2 else if i < 3 then 7 else 0)
       = (True, ln 4)"
  using UnitTranslationPriorError_residual [of "\<lambda>i. if i = 3 then 1 else 0"]
        UnitTranslationPriorError_residual [of "\<lambda>i. if i = 3 then 2 else if i < 3 then 7 else 0"]
  by simp

section \<open>The heatmap prior\<close>

text \<open>
  Claim C8: \<open>HeatmapdCostFunctor\<close> samples the interpolator at
  \<open>row = height / 2 - (pos_y - y_offset) / resolution\<close> and
  \<open>col = width / 2 + (pos_x - x_offset) / resolution\<close> for the position the shot
  position functor computes, and the residual is the scale times the sample.
  For a position at the offset (and a resolution other than 0) the cell is
  \<open>(height / 2, width / 2)\<close>.
\<close>

theorem HeatmapdCostFunctor_residual:
  "(let position = ShotPositionFunctor 0 FUNCTOR_NOT_SET (addr_of p)
    in HeatmapdCostFunctor_call ShotPositionFunctor self p =
         (True, heat_scale self *
            heat_interpolator self
              (heat_height self / 2 - (vy position - heat_y_offset self) / heat_resolution self)
              (heat_width self / 2 + (vx position - heat_x_offset self) / heat_resolution self))
     \<and> (heat_resolution self \<noteq> 0 \<and> vx position = heat_x_offset self
          \<and> vy position = heat_y_offset self \<longrightarrow>
          HeatmapdCostFunctor_row_col self position = (heat_height self / 2, heat_width self / 2)
          \<and> HeatmapdCostFunctor_call ShotPositionFunctor self p =
              (True, heat_scale self *
                 heat_interpolator self (heat_height self / 2) (heat_width self / 2))))"
  by (simp add: HeatmapdCostFunctor_call_def HeatmapdCostFunctor_row_col_def Let_def coeff_def)

theorem HeatmapdCostFunctor_residual_witness:
  "HeatmapdCostFunctor_call (\<lambda>i c p. Vec3 ((p ! 0) 3) ((p ! 0) 4) ((p ! 0) 5))
     (HeatmapdCostFunctor_ctor (\<lambda>r c. r + 2 * c) 1 2 10 20 (1 / 2) 2)
     (\<lambda>i. if i = 3 then 1 else if i = 4 then 2 else 0)
   = (True, 25 / 2)"
  using HeatmapdCostFunctor_residual [of "\<lambda>i c p. Vec3 ((p ! 0) 3) ((p ! 0) 4) ((p ! 0) 5)"
               "\<lambda>i. if i = 3 then 1 else if i = 4 then 2 else 0"
               "HeatmapdCostFunctor_ctor (\<lambda>r c. r + 2 * c) 1 2 10 20 (1 / 2) 2"]
  by (simp add: Let_def HeatmapdCostFunctor_ctor_def addr_of_def)

section \<open>Noninterference of the rotation entries\<close>

text \<open>
  Claim C10: two shot blocks that agree on the entries 3, 4 and 5 have the same
  \<open>UnitTranslationPriorError\<close> residual, whatever their entries 0, 1 and 2.
\<close>

theorem UnitTranslationPriorError_noninterference:
  "shot 3 = shot' 3 \<and> shot 4 = shot' 4 \<and> shot 5 = shot' 5 \<Longrightarrow>
   UnitTranslationPriorError_call shot = UnitTranslationPriorError_call shot'"
  by (simp add: UnitTranslationPriorError_call_def Let_def ptr_add_def)

theorem UnitTranslationPriorError_noninterference_witness:
  "UnitTranslationPriorError_call (\<lambda>i. if i < 3 then 1 else 2)
     = UnitTranslationPriorError_call (\<lambda>i. if i < 3 then real i + 5 else 2)"
  using UnitTranslationPriorError_noninterference [of "\<lambda>i. if i < 3 then 1 else 2" "\<lambda>i. if i < 3 then real i + 5 else 2"]
  by simp

end
